theory Spec2Isabelle
  imports Complex_Main
begin

section \<open>Data model\<close>

text \<open>
  The label collection of \<^verbatim>\<open>DOMLabelCollection.js\<close> keeps references to label objects in
  three associative arrays. Label objects live in a store (\<open>heap\<close>) and are named by
  references, so that the identity test of \<open>contains\<close> and the sharing of one label between
  the arrays are those of the source. An id is the property key under which a label is
  stored.
\<close>

type_synonym ref = nat
type_synonym ident = string

datatype Cartesian3 = Cartesian3 real real real

datatype Cartesian2 = Cartesian2 (c2_x: real) (c2_y: real)

text \<open>
  Modelled from the spec: \<open>Cartesian3.dot\<close> (\<^verbatim>\<open>Core/Cartesian3\<close> is not among the sources) is
  the dot product of the camera position and the label position. Coordinates are reals;
  the properties below depend only on the outcome of the comparison with zero.
\<close>

fun dot :: "Cartesian3 \<Rightarrow> Cartesian3 \<Rightarrow> real" where
  "dot (Cartesian3 a b c) (Cartesian3 d e f) = a * d + b * e + c * f"

datatype css_length = Px real

text \<open>
  The part of a label's DOM element that the collection reads and writes; \<open>offsetHeight\<close>
  and \<open>offsetWidth\<close> are what the browser reports when they are read.
\<close>

record element =
  style_display :: string
  style_top :: "css_length option"
  style_left :: "css_length option"
  offsetHeight :: real
  offsetWidth :: real

datatype owner = ThisCollection | OtherCollection

text \<open>
  A \<open>DOMLabel\<close> as the collection sees it: \<open>id\<close>, the element \<open>_label\<close> it owns, \<open>_show\<close>,
  \<open>_position\<close>, the pixel offsets and the back-reference \<open>_domlabelCollection\<close>
  (\<open>None\<close> is \<open>undefined\<close>).
\<close>

record DOMLabel =
  label_id :: ident
  label_el :: element
  l_show :: bool
  l_position :: Cartesian3
  vOffset :: real
  hOffset :: real
  domlabelCollection :: "owner option"

datatype handler = RenderFrame

datatype hook_call =
    AddEventListener handler "owner option"
  | RemoveEventListener handler "owner option"

text \<open>
  The scene of the host engine: the camera position, the world-to-screen projection
  (\<open>None\<close> is \<open>undefined\<close>) and the calls made on its \<open>preRender\<close> event, in order.
\<close>

record scene =
  camera_position :: Cartesian3
  cartesianToCanvasCoordinates :: "Cartesian3 \<Rightarrow> Cartesian2 option"
  preRender :: "hook_call list"

text \<open>
  The container element: its \<open>style.display\<close> and its child elements, each named by the
  label that owns it.
\<close>

record container =
  c_display :: string
  children :: "ref list"

datatype error = DeveloperError string | RuntimeError string | NotFoundError

subsection \<open>AssociativeArray\<close>

text \<open>
  Modelled from the spec: \<open>AssociativeArray\<close> (\<^verbatim>\<open>Core/AssociativeArray\<close> is not among the
  sources) is the ordered mapping from id to label with unique keys: a hash from keys to
  values together with the array of the values in insertion order. \<open>remove\<close> deletes the
  key and splices the value out of the array at its first index (index \<open>-1\<close> of a value that
  is not there splices the last element), \<open>set\<close> replaces the value of a key and appends it,
  \<open>removeAll\<close> empties a non-empty array and its hash.
\<close>

record assoc =
  hash :: "ident \<rightharpoonup> ref"
  array :: "ref list"

definition aa_empty :: assoc where
  "aa_empty = \<lparr>hash = Map.empty, array = []\<rparr>"

definition aa_length :: "assoc \<Rightarrow> nat" where
  "aa_length a = length (array a)"

definition aa_values :: "assoc \<Rightarrow> ref list" where
  "aa_values a = array a"

definition aa_contains :: "assoc \<Rightarrow> ident \<Rightarrow> bool" where
  "aa_contains a k = (hash a k \<noteq> None)"

definition aa_get :: "assoc \<Rightarrow> ident \<Rightarrow> ref option" where
  "aa_get a k = hash a k"

definition aa_remove :: "assoc \<Rightarrow> ident \<Rightarrow> bool \<times> assoc" where
  "aa_remove a k =
     (case hash a k of
        None \<Rightarrow> (False, a)
      | Some v \<Rightarrow>
          (True, \<lparr>hash = (hash a)(k := None),
                  array = (if v \<in> set (array a) then remove1 v (array a)
                           else butlast (array a))\<rparr>))"

definition aa_set :: "assoc \<Rightarrow> ident \<Rightarrow> ref \<Rightarrow> assoc" where
  "aa_set a k v =
     (if hash a k = Some v then a
      else (let a' = snd (aa_remove a k)
            in \<lparr>hash = (hash a')(k \<mapsto> v), array = array a' @ [v]\<rparr>))"

definition aa_removeAll :: "assoc \<Rightarrow> assoc" where
  "aa_removeAll a = (if 0 < length (array a) then \<lparr>hash = Map.empty, array = []\<rparr> else a)"

subsection \<open>The collection and its surroundings\<close>

text \<open>
  What \<open>collectionChanged\<close> did, in order: a raise of the event with its two arrays, the
  return of a raise, and a call of the notification routine that was put off because a
  raise was in progress. The trace is bookkeeping of the model, not a field of the source.
\<close>

datatype event = RaiseBegin "ref list" "ref list" | RaiseEnd | Deferred

record world =
  labels :: assoc
  addedLabels :: assoc
  removedLabels :: assoc
  show_flag :: bool
  firing :: bool
  refire :: bool
  container_of :: container
  scene_of :: scene
  heap :: "ref \<Rightarrow> DOMLabel"
  next_ref :: ref
  trace :: "event list"

text \<open>
  The argument of \<open>add\<close>: a \<open>DOMLabel\<close> instance, or an options object, given here by the
  label that \<open>new DOMLabel(options)\<close> builds from it (the constructor is not among the
  sources).
\<close>

datatype add_arg = Instance ref | Options DOMLabel

text \<open>
  The calls a listener of \<open>collectionChanged\<close> makes on the collection. A listener sees
  the collection and the two arrays of the event and answers with its calls.
\<close>

datatype cmd =
    Add "add_arg option"
  | Remove "ref option"
  | RemoveById "ident option"
  | RemoveAll

type_synonym listener = "world \<Rightarrow> ref list \<Rightarrow> ref list \<Rightarrow> cmd list"

type_synonym 'a outcome = "((error + 'a) \<times> world) option"

section \<open>Operations\<close>

definition appendChild :: "ref \<Rightarrow> container \<Rightarrow> container" where
  "appendChild r c = c\<lparr>children := removeAll r (children c) @ [r]\<rparr>"

definition removeChild :: "ref \<Rightarrow> container \<Rightarrow> error + container" where
  "removeChild r c =
     (if r \<in> set (children c) then Inr (c\<lparr>children := removeAll r (children c)\<rparr>)
      else Inl NotFoundError)"

text \<open>
  The loop of \<open>removeAll\<close> over the stored labels: a label that is not pending in the added
  set loses its back-reference, its element leaves the container and it is recorded as
  removed.
\<close>

fun removeAll_loop :: "ref list \<Rightarrow> world \<Rightarrow> (error + unit) \<times> world" where
  "removeAll_loop [] w = (Inr (), w)"
| "removeAll_loop (r # rs) w =
     (let existingItemId = label_id (heap w r)
      in case aa_get (addedLabels w) existingItemId of
           Some addedItem \<Rightarrow> removeAll_loop rs w
         | None \<Rightarrow>
             (let w1 = w\<lparr>heap := (heap w)(r := (heap w r)\<lparr>domlabelCollection := None\<rparr>)\<rparr>
              in case removeChild r (container_of w1) of
                   Inl e \<Rightarrow> (Inl e, w1)
                 | Inr c \<Rightarrow>
                     removeAll_loop rs
                       (w1\<lparr>container_of := c,
                           removedLabels := aa_set (removedLabels w1) existingItemId r\<rparr>)))"

text \<open>
  The notification routine and the operations call each other: an operation ends with
  \<open>fireChangedEvent\<close>, which raises the event, whose listeners call operations. Each
  operation is therefore written over the notification routine it ends with (\<open>fire\<close>),
  and the routine over the loop it runs; the loop \<open>fire_loop\<close> closes the circle. The
  loop may run forever (a listener can ask for another round each time), so it counts
  rounds down from a bound and \<open>None\<close> is the answer of a run that needs more.
  A result is the value returned or the error thrown, with the state at that moment.
\<close>

definition fireChangedEvent_with :: "(world \<Rightarrow> unit outcome) \<Rightarrow> world \<Rightarrow> unit outcome" where
  "fireChangedEvent_with loop w =
     (if firing w then Some (Inr (), w\<lparr>refire := True, trace := trace w @ [Deferred]\<rparr>)
      else if aa_length (addedLabels w) \<noteq> 0 \<or> aa_length (removedLabels w) \<noteq> 0 then
        (case loop (w\<lparr>firing := True\<rparr>) of
           None \<Rightarrow> None
         | Some (Inl e, w') \<Rightarrow> Some (Inl e, w')
         | Some (Inr u, w') \<Rightarrow> Some (Inr (), w'\<lparr>firing := False\<rparr>))
      else Some (Inr (), w))"

definition add_with :: "(world \<Rightarrow> unit outcome) \<Rightarrow> add_arg option \<Rightarrow> world \<Rightarrow> ref outcome" where
  "add_with fire arg w =
     (case arg of
        None \<Rightarrow> Some (Inl (DeveloperError ''label is required.''), w)
      | Some a \<Rightarrow>
          (let (label, w0) =
                 (case a of
                    Instance r \<Rightarrow> (r, w)
                  | Options l \<Rightarrow>
                      (next_ref w,
                       w\<lparr>heap := (heap w)(next_ref w := l), next_ref := Suc (next_ref w)\<rparr>));
               i = label_id (heap w0 label)
           in if aa_contains (labels w0) i then
                Some (Inl (RuntimeError
                  (''A label with id '' @ i @ '' already exists in this collection.'')), w0)
              else
                (let w1 = w0\<lparr>heap := (heap w0)
                            (label := (heap w0 label)\<lparr>domlabelCollection := Some ThisCollection\<rparr>),
                          container_of := appendChild label (container_of w0),
                          labels := aa_set (labels w0) i label\<rparr>;
                     (was_removed, removed') = aa_remove (removedLabels w1) i;
                     w2 = w1\<lparr>removedLabels := removed'\<rparr>;
                     w3 = (if \<not> was_removed
                           then w2\<lparr>addedLabels := aa_set (addedLabels w2) i label\<rparr> else w2)
                 in case fire w3 of
                      None \<Rightarrow> None
                    | Some (Inl e, w') \<Rightarrow> Some (Inl e, w')
                    | Some (Inr u, w') \<Rightarrow> Some (Inr label, w'))))"

definition removeById_with ::
  "(world \<Rightarrow> unit outcome) \<Rightarrow> ident option \<Rightarrow> world \<Rightarrow> bool outcome" where
  "removeById_with fire arg w =
     (case arg of
        None \<Rightarrow> Some (Inr False, w)
      | Some i \<Rightarrow>
          (case aa_get (labels w) i of
             None \<Rightarrow> Some (Inr False, w)
           | Some label \<Rightarrow>
               (let w1 = w\<lparr>labels := snd (aa_remove (labels w) i)\<rparr>;
                    (was_added, added') = aa_remove (addedLabels w1) i;
                    w2 = w1\<lparr>addedLabels := added'\<rparr>;
                    w3 = (if \<not> was_added
                          then w2\<lparr>removedLabels := snd (aa_remove (removedLabels w2) i)\<rparr>
                          else w2);
                    w4 = w3\<lparr>labels := snd (aa_remove (labels w3) i)\<rparr>;
                    w5 = w4\<lparr>heap := (heap w4)
                               (label := (heap w4 label)\<lparr>domlabelCollection := None\<rparr>)\<rparr>
                in case removeChild label (container_of w5) of
                     Inl e \<Rightarrow> Some (Inl e, w5)
                   | Inr c \<Rightarrow>
                       (case fire (w5\<lparr>container_of := c\<rparr>) of
                          None \<Rightarrow> None
                        | Some (Inl e, w') \<Rightarrow> Some (Inl e, w')
                        | Some (Inr u, w') \<Rightarrow> Some (Inr True, w')))))"

definition remove_with :: "(world \<Rightarrow> unit outcome) \<Rightarrow> ref option \<Rightarrow> world \<Rightarrow> bool outcome" where
  "remove_with fire arg w =
     (case arg of
        None \<Rightarrow> Some (Inr False, w)
      | Some label \<Rightarrow> removeById_with fire (Some (label_id (heap w label))) w)"

definition removeAll_with :: "(world \<Rightarrow> unit outcome) \<Rightarrow> world \<Rightarrow> unit outcome" where
  "removeAll_with fire w =
     (case removeAll_loop (aa_values (labels w)) w of
        (Inl e, w1) \<Rightarrow> Some (Inl e, w1)
      | (Inr u, w1) \<Rightarrow>
          fire (w1\<lparr>labels := aa_removeAll (labels w1),
                   addedLabels := aa_removeAll (addedLabels w1)\<rparr>))"

definition forget :: "'a outcome \<Rightarrow> unit outcome" where
  "forget x = (case x of
                 None \<Rightarrow> None
               | Some (Inl e, w) \<Rightarrow> Some (Inl e, w)
               | Some (Inr v, w) \<Rightarrow> Some (Inr (), w))"

definition run_cmd_with :: "(world \<Rightarrow> unit outcome) \<Rightarrow> cmd \<Rightarrow> world \<Rightarrow> unit outcome" where
  "run_cmd_with fire c w =
     (case c of
        Add a \<Rightarrow> forget (add_with fire a w)
      | Remove a \<Rightarrow> forget (remove_with fire a w)
      | RemoveById a \<Rightarrow> forget (removeById_with fire a w)
      | RemoveAll \<Rightarrow> removeAll_with fire w)"

text \<open>A listener's calls, one after the other; the first error ends them.\<close>

fun run_cmds_with :: "(world \<Rightarrow> unit outcome) \<Rightarrow> cmd list \<Rightarrow> world \<Rightarrow> unit outcome" where
  "run_cmds_with fire [] w = Some (Inr (), w)"
| "run_cmds_with fire (c # cs) w =
     (case run_cmd_with fire c w of
        None \<Rightarrow> None
      | Some (Inl e, w') \<Rightarrow> Some (Inl e, w')
      | Some (Inr u, w') \<Rightarrow> run_cmds_with fire cs w')"

text \<open>
  Modelled from the spec: \<open>Event.raiseEvent\<close> (\<^verbatim>\<open>Core/Event\<close> is not among the sources) raises
  the collection-changed notification: every registered listener is called in turn with
  the collection and the two arrays.
\<close>

fun raiseEvent_with ::
  "(world \<Rightarrow> unit outcome) \<Rightarrow> listener list \<Rightarrow> ref list \<Rightarrow> ref list \<Rightarrow> world \<Rightarrow> unit outcome"
where
  "raiseEvent_with fire [] addedArray removedArray w = Some (Inr (), w)"
| "raiseEvent_with fire (l # rest) addedArray removedArray w =
     (case run_cmds_with fire (l w addedArray removedArray) w of
        None \<Rightarrow> None
      | Some (Inl e, w') \<Rightarrow> Some (Inl e, w')
      | Some (Inr u, w') \<Rightarrow> raiseEvent_with fire rest addedArray removedArray w')"

text \<open>The \<open>do ... while (collection._refire)\<close> loop of \<open>fireChangedEvent\<close>.\<close>

primrec fire_loop :: "nat \<Rightarrow> listener list \<Rightarrow> world \<Rightarrow> unit outcome" where
  "fire_loop 0 ls w = None"
| "fire_loop (Suc n) ls w =
     (let addedArray = aa_values (addedLabels w);
          removedArray = aa_values (removedLabels w);
          w1 = w\<lparr>refire := False,
                 addedLabels := aa_removeAll (addedLabels w),
                 removedLabels := aa_removeAll (removedLabels w),
                 trace := trace w @ [RaiseBegin addedArray removedArray]\<rparr>
      in case raiseEvent_with (fireChangedEvent_with (fire_loop n ls)) ls
                addedArray removedArray w1 of
           None \<Rightarrow> None
         | Some (Inl e, w2) \<Rightarrow> Some (Inl e, w2)
         | Some (Inr u, w2) \<Rightarrow>
             (let w3 = w2\<lparr>trace := trace w2 @ [RaiseEnd]\<rparr>
              in if refire w3 then fire_loop n ls w3 else Some (Inr (), w3)))"

definition fireChangedEvent :: "nat \<Rightarrow> listener list \<Rightarrow> world \<Rightarrow> unit outcome" where
  "fireChangedEvent n ls = fireChangedEvent_with (fire_loop n ls)"

definition add :: "nat \<Rightarrow> listener list \<Rightarrow> add_arg option \<Rightarrow> world \<Rightarrow> ref outcome" where
  "add n ls = add_with (fireChangedEvent n ls)"

definition remove :: "nat \<Rightarrow> listener list \<Rightarrow> ref option \<Rightarrow> world \<Rightarrow> bool outcome" where
  "remove n ls = remove_with (fireChangedEvent n ls)"

definition removeById :: "nat \<Rightarrow> listener list \<Rightarrow> ident option \<Rightarrow> world \<Rightarrow> bool outcome" where
  "removeById n ls = removeById_with (fireChangedEvent n ls)"



definition raiseEvent ::
  "nat \<Rightarrow> listener list \<Rightarrow> ref list \<Rightarrow> ref list \<Rightarrow> world \<Rightarrow> unit outcome" where
  "raiseEvent n ls = raiseEvent_with (fireChangedEvent n ls) ls"

definition contains :: "ref option \<Rightarrow> world \<Rightarrow> error + bool" where
  "contains arg w =
     (case arg of
        None \<Rightarrow> Inl (DeveloperError ''label is required.'')
      | Some label \<Rightarrow> Inr (aa_get (labels w) (label_id (heap w label)) = Some label))"



text \<open>
  The constructor, given the container element, the scene, the optional \<open>show\<close> and the
  label objects that exist (with the next free reference).
\<close>

definition DOMLabelCollection ::
  "(ref \<Rightarrow> DOMLabel) \<Rightarrow> ref \<Rightarrow> container option \<Rightarrow> scene option \<Rightarrow> bool option \<Rightarrow> error + world"
where
  "DOMLabelCollection h nxt cont scn shw =
     (case cont of
        None \<Rightarrow> Inl (DeveloperError ''container is required.'')
      | Some c \<Rightarrow>
          (case scn of
             None \<Rightarrow> Inl (DeveloperError ''scene is required.'')
           | Some s \<Rightarrow>
               Inr \<lparr>labels = aa_empty, addedLabels = aa_empty, removedLabels = aa_empty,
                    show_flag = (case shw of None \<Rightarrow> True | Some b \<Rightarrow> b),
                    firing = False, refire = False,
                    container_of = c,
                    scene_of = s\<lparr>preRender := preRender s
                      @ [AddEventListener RenderFrame (Some ThisCollection)]\<rparr>,
                    heap = h, next_ref = nxt, trace = []\<rparr>))"

subsection \<open>Per-frame synchronization\<close>

text \<open>
  The body of the loop of \<open>renderFrame\<close> for one label. The scratch variables of the module
  are assigned before they are read, so they are local here.
\<close>

definition renderLabel :: "scene \<Rightarrow> DOMLabel \<Rightarrow> DOMLabel" where
  "renderLabel s l =
     (if l_show l then
        (if dot (camera_position s) (l_position l) < 0 then
           l\<lparr>label_el := (label_el l)\<lparr>style_display := ''none''\<rparr>\<rparr>
         else
           (case cartesianToCanvasCoordinates s (l_position l) of
              Some p \<Rightarrow>
                l\<lparr>label_el := (label_el l)
                   \<lparr>style_display := ''block'',
                    style_top := Some (Px (vOffset l + c2_y p - offsetHeight (label_el l) / 2)),
                    style_left := Some (Px (hOffset l + c2_x p - offsetWidth (label_el l) / 2))\<rparr>\<rparr>
            | None \<Rightarrow> l))
      else l)"

fun renderFrame_loop :: "ref list \<Rightarrow> world \<Rightarrow> world" where
  "renderFrame_loop [] w = w"
| "renderFrame_loop (r # rs) w =
     renderFrame_loop rs (w\<lparr>heap := (heap w)(r := renderLabel (scene_of w) (heap w r))\<rparr>)"

definition renderFrame :: "world \<Rightarrow> world" where
  "renderFrame w =
     (if show_flag w \<and> aa_length (labels w) \<noteq> 0
      then renderFrame_loop (aa_values (labels w)) w else w)"

section \<open>The discipline of notifications\<close>





text \<open>Listeners that make no call on the collection.\<close>

definition silent :: "listener list \<Rightarrow> bool" where
  "silent ls = (\<forall>l \<in> set ls. \<forall>w a r. l w a r = [])"

text \<open>
  A call of the notification routine that runs no listener code which could change the
  collection again: a raise is in progress (the call is put off), or nothing is pending,
  or the listeners are silent.
\<close>

definition quiet :: "nat \<Rightarrow> listener list \<Rightarrow> world \<Rightarrow> bool" where
  "quiet n ls w =
     (firing w
      \<or> (aa_length (addedLabels w) = 0 \<and> aa_length (removedLabels w) = 0)
      \<or> (0 < n \<and> silent ls))"


text \<open>What one call of the notification routine adds to the trace when the listeners are silent.\<close>

definition fired :: "world \<Rightarrow> event list" where
  "fired w =
     (if firing w then [Deferred]
      else if aa_length (addedLabels w) \<noteq> 0 \<or> aa_length (removedLabels w) \<noteq> 0
      then [RaiseBegin (aa_values (addedLabels w)) (aa_values (removedLabels w)), RaiseEnd]
      else [])"

text \<open>A label that is shown and lies behind the camera of the scene.\<close>

definition behind :: "scene \<Rightarrow> DOMLabel \<Rightarrow> bool" where
  "behind s l = (l_show l \<and> dot (camera_position s) (l_position l) < 0)"





section \<open>Example states\<close>

text \<open>
  A small scene used to run the operations: the camera on the positive z axis, nothing
  projected onto the canvas, label 1 (id \<open>a\<close>) in front of the camera, label 2 (id \<open>b\<close>)
  behind it, and label 3 a second object with the id \<open>a\<close>.
\<close>

definition el0 :: element where
  "el0 = \<lparr>style_display = ''block'', style_top = None, style_left = None,
          offsetHeight = 20, offsetWidth = 80\<rparr>"

definition lab :: "ident \<Rightarrow> Cartesian3 \<Rightarrow> DOMLabel" where
  "lab i p = \<lparr>label_id = i, label_el = el0, l_show = True, l_position = p,
              vOffset = 0, hOffset = 0, domlabelCollection = None\<rparr>"

definition heap0 :: "ref \<Rightarrow> DOMLabel" where
  "heap0 r = (if r = 2 then lab ''b'' (Cartesian3 0 0 (- 1)) else lab ''a'' (Cartesian3 0 0 1))"

definition scene0 :: scene where
  "scene0 = \<lparr>camera_position = Cartesian3 0 0 1,
             cartesianToCanvasCoordinates = (\<lambda>p. None),
             preRender = []\<rparr>"

definition cont0 :: container where
  "cont0 = \<lparr>c_display = [], children = []\<rparr>"

text \<open>The collection as the constructor leaves it, with \<open>show\<close> omitted and with \<open>show\<close> false.\<close>

definition world0 :: world where
  "world0 = \<lparr>labels = aa_empty, addedLabels = aa_empty, removedLabels = aa_empty,
             show_flag = True, firing = False, refire = False,
             container_of = cont0,
             scene_of = scene0\<lparr>preRender := [AddEventListener RenderFrame (Some ThisCollection)]\<rparr>,
             heap = heap0, next_ref = 4, trace = []\<rparr>"


text \<open>The label objects once label 2, and once labels 2 and 1, belong to the collection.\<close>

definition heap_b :: "ref \<Rightarrow> DOMLabel" where
  "heap_b = heap0(2 := (heap0 2)\<lparr>domlabelCollection := Some ThisCollection\<rparr>)"

definition heap_ab :: "ref \<Rightarrow> DOMLabel" where
  "heap_ab = heap_b(1 := (heap0 1)\<lparr>domlabelCollection := Some ThisCollection\<rparr>)"

text \<open>The collection holding labels 1 and 2, at rest.\<close>

definition world_ab :: world where
  "world_ab = world0
     \<lparr>labels := \<lparr>hash = [''a'' \<mapsto> 1, ''b'' \<mapsto> 2], array = [1, 2]\<rparr>,
      container_of := cont0\<lparr>children := [1, 2]\<rparr>,
      heap := heap_ab\<rparr>"






text \<open>The state in which \<open>add\<close> of label 2 to the new collection calls the notification routine.\<close>

definition world_b_added :: world where
  "world_b_added = world0
     \<lparr>labels := \<lparr>hash = [''b'' \<mapsto> 2], array = [2]\<rparr>,
      addedLabels := \<lparr>hash = [''b'' \<mapsto> 2], array = [2]\<rparr>,
      container_of := cont0\<lparr>children := [2]\<rparr>,
      heap := heap_b\<rparr>"

section \<open>Properties\<close>

subsection \<open>The example states\<close>

lemma constructor_world0:
  "DOMLabelCollection heap0 4 (Some cont0) (Some scene0) None = Inr world0"
  by (simp add: DOMLabelCollection_def world0_def scene0_def)

lemma add_calls_notification_in_world_b_added:
  "add n ls (Some (Instance 2)) world0 =
     (case fireChangedEvent n ls world_b_added of
        None \<Rightarrow> None
      | Some (Inl e, w') \<Rightarrow> Some (Inl e, w')
      | Some (Inr u, w') \<Rightarrow> Some (Inr 2, w'))"
  by (simp add: add_def add_with_def world0_def world_b_added_def heap_b_def heap0_def lab_def
      aa_empty_def aa_contains_def aa_set_def aa_remove_def appendChild_def cont0_def Let_def)

subsection \<open>Membership is by identity\<close>

text \<open>
  C9. For a defined label argument, \<open>contains\<close> answers true exactly when the object
  stored under the label's id is that very label; another label object that has the id
  of a stored label gets the answer false.
\<close>

theorem contains_identity:
  "contains (Some r) w = Inr (hash (labels w) (label_id (heap w r)) = Some r)
   \<and> (hash (labels w) (label_id (heap w r)) = Some r \<and> r' \<noteq> r
        \<and> label_id (heap w r') = label_id (heap w r)
      \<longrightarrow> contains (Some r') w = Inr False)"
  by (simp add: contains_def aa_get_def)

theorem contains_identity_witness:
  "contains (Some 1) world_ab = Inr True \<and> contains (Some 3) world_ab = Inr False"
  using contains_identity [of 1 world_ab 3]
  by (simp add: world_ab_def world0_def heap_ab_def heap_b_def heap0_def lab_def)

subsection \<open>Duplicate ids and missing arguments\<close>

text \<open>
  C5. Adding a label whose id is already a key of the collection throws the
  \<open>RuntimeError\<close> and leaves the collection as it was: for a label instance the whole
  state is unchanged, for an options object only the label object built from it is new.
\<close>

theorem add_duplicate_fails:
  "(aa_contains (labels w) (label_id (heap w r)) \<longrightarrow>
      add n ls (Some (Instance r)) w =
        Some (Inl (RuntimeError (''A label with id '' @ label_id (heap w r)
                @ '' already exists in this collection.'')), w))
   \<and> (aa_contains (labels w) (label_id l) \<longrightarrow>
      add n ls (Some (Options l)) w =
        Some (Inl (RuntimeError (''A label with id '' @ label_id l
                @ '' already exists in this collection.'')),
              w\<lparr>heap := (heap w)(next_ref w := l), next_ref := Suc (next_ref w)\<rparr>))"
  by (simp add: add_def add_with_def)

theorem add_duplicate_fails_witness:
  "aa_contains (labels world_ab) (label_id (heap world_ab 3))
   \<and> add 1 [] (Some (Instance 3)) world_ab =
       Some (Inl (RuntimeError ''A label with id a already exists in this collection.''),
             world_ab)
   \<and> add 1 [] (Some (Options (lab ''b'' (Cartesian3 1 0 0)))) world_ab =
       Some (Inl (RuntimeError ''A label with id b already exists in this collection.''),
             world_ab\<lparr>heap := (heap world_ab)(4 := lab ''b'' (Cartesian3 1 0 0)),
                      next_ref := 5\<rparr>)"
  using add_duplicate_fails [of world_ab 3 1 "[]" "lab ''b'' (Cartesian3 1 0 0)"]
  by (simp add: world_ab_def world0_def heap_ab_def heap_b_def heap0_def lab_def aa_contains_def)




subsection \<open>The visibility toggle\<close>




subsection \<open>Per-frame synchronization\<close>

text \<open>
  C10. When the collection is not shown, or holds no label, a frame changes nothing.
\<close>

theorem renderFrame_idle:
  "\<not> show_flag w \<or> aa_length (labels w) = 0 \<Longrightarrow> renderFrame w = w"
  by (auto simp: renderFrame_def)

theorem renderFrame_idle_witness:
  "renderFrame (world_ab\<lparr>show_flag := False\<rparr>) = world_ab\<lparr>show_flag := False\<rparr>
   \<and> renderFrame world0 = world0"
  using renderFrame_idle [of "world_ab\<lparr>show_flag := False\<rparr>"] renderFrame_idle [of world0]
  by (simp add: world0_def aa_length_def aa_empty_def)

text \<open>
  C3 does not hold of the code. Label 1 is shown, it is not behind the camera and its
  projection is \<open>undefined\<close>; the frame leaves its element displayed (\<open>block\<close>), where
  the branch for a label behind the camera sets \<open>none\<close>.
\<close>

theorem renderFrame_offscreen_not_hidden:
  "show_flag world_ab
   \<and> 1 \<in> set (aa_values (labels world_ab))
   \<and> l_show (heap world_ab 1)
   \<and> \<not> dot (camera_position (scene_of world_ab)) (l_position (heap world_ab 1)) < 0
   \<and> cartesianToCanvasCoordinates (scene_of world_ab) (l_position (heap world_ab 1)) = None
   \<and> style_display (label_el (heap world_ab 1)) = ''block''
   \<and> style_display (label_el (heap (renderFrame world_ab) 1)) = ''block''"
  by (simp add: renderFrame_def renderLabel_def world_ab_def world0_def scene0_def heap_ab_def heap_b_def heap0_def
      lab_def el0_def aa_length_def aa_values_def)

lemma renderLabel_behind:
  "behind s l \<Longrightarrow>
     behind s (renderLabel s l)
     \<and> style_display (label_el (renderLabel s l)) = ''none''
     \<and> style_top (label_el (renderLabel s l)) = style_top (label_el l)
     \<and> style_left (label_el (renderLabel s l)) = style_left (label_el l)"
  by (simp add: behind_def renderLabel_def)

lemma renderFrame_loop_scene: "scene_of (renderFrame_loop rs w) = scene_of w"
  by (induction rs arbitrary: w) simp_all

lemma renderFrame_loop_behind:
  "behind (scene_of w) (heap w r) \<Longrightarrow>
     behind (scene_of w) (heap (renderFrame_loop rs w) r)
     \<and> style_top (label_el (heap (renderFrame_loop rs w) r)) = style_top (label_el (heap w r))
     \<and> style_left (label_el (heap (renderFrame_loop rs w) r)) = style_left (label_el (heap w r))
     \<and> (r \<in> set rs \<or> style_display (label_el (heap w r)) = ''none''
          \<longrightarrow> style_display (label_el (heap (renderFrame_loop rs w) r)) = ''none'')"
proof (induction rs arbitrary: w)
  case Nil
  then show ?case by simp
next
  case (Cons a rs)
  let ?w = "w\<lparr>heap := (heap w)(a := renderLabel (scene_of w) (heap w a))\<rparr>"
  have b: "behind (scene_of ?w) (heap ?w r)"
    using Cons.prems renderLabel_behind [of "scene_of w" "heap w r"] by auto
  from Cons.IH [OF b] show ?case
    using Cons.prems renderLabel_behind [of "scene_of w" "heap w r"] by auto
qed

text \<open>
  C4. In a frame, a shown label of the collection whose position is behind the camera
  (negative dot product with the camera position) keeps its \<open>top\<close> and \<open>left\<close>, and, the
  collection being shown, its element ends with \<open>display\<close> \<open>none\<close>.
\<close>

theorem renderFrame_behind_camera:
  assumes "r \<in> set (aa_values (labels w))"
    and "l_show (heap w r)"
    and "dot (camera_position (scene_of w)) (l_position (heap w r)) < 0"
  shows "(show_flag w \<longrightarrow> style_display (label_el (heap (renderFrame w) r)) = ''none'')
     \<and> style_top (label_el (heap (renderFrame w) r)) = style_top (label_el (heap w r))
     \<and> style_left (label_el (heap (renderFrame w) r)) = style_left (label_el (heap w r))"
proof -
  have b: "behind (scene_of w) (heap w r)"
    using assms by (simp add: behind_def)
  have "aa_length (labels w) \<noteq> 0"
    using assms(1) by (auto simp: aa_length_def aa_values_def)
  then show ?thesis
    using renderFrame_loop_behind [OF b, of "aa_values (labels w)"] assms(1)
    by (simp add: renderFrame_def)
qed

theorem renderFrame_behind_camera_witness:
  "2 \<in> set (aa_values (labels world_ab))
   \<and> l_show (heap world_ab 2)
   \<and> dot (camera_position (scene_of world_ab)) (l_position (heap world_ab 2)) < 0
   \<and> style_display (label_el (heap world_ab 2)) = ''block''
   \<and> style_display (label_el (heap (renderFrame world_ab) 2)) = ''none''
   \<and> style_top (label_el (heap (renderFrame world_ab) 2)) = None"
  using renderFrame_behind_camera [of 2 world_ab]
  by (simp add: world_ab_def world0_def scene0_def heap_ab_def heap_b_def heap0_def lab_def el0_def aa_values_def)

subsection \<open>Removal\<close>

lemma raiseEvent_with_silent:
  "silent ls \<Longrightarrow> raiseEvent_with fire ls a r w = Some (Inr (), w)"
  by (induction ls) (simp_all add: silent_def)

lemma fire_loop_silent:
  "silent ls \<Longrightarrow>
     fire_loop (Suc n) ls w =
       Some (Inr (), w\<lparr>refire := False,
                       addedLabels := aa_removeAll (addedLabels w),
                       removedLabels := aa_removeAll (removedLabels w),
                       trace := trace w @ [RaiseBegin (aa_values (addedLabels w))
                                  (aa_values (removedLabels w)), RaiseEnd]\<rparr>)"
  by (simp add: raiseEvent_with_silent Let_def)

lemma fireChangedEvent_quiet:
  assumes "quiet n ls w"
  shows "\<exists>w'. fireChangedEvent n ls w = Some (Inr (), w')
           \<and> labels w' = labels w \<and> container_of w' = container_of w \<and> heap w' = heap w
           \<and> scene_of w' = scene_of w \<and> show_flag w' = show_flag w
           \<and> firing w' = firing w
           \<and> trace w' = trace w @ fired w"
proof (cases "firing w")
  case True
  then show ?thesis
    by (simp add: fireChangedEvent_def fireChangedEvent_with_def fired_def)
next
  case False
  show ?thesis
  proof (cases "aa_length (addedLabels w) \<noteq> 0 \<or> aa_length (removedLabels w) \<noteq> 0")
    case p: True
    with False assms obtain m where n: "n = Suc m" and s: "silent ls"
      by (auto simp: quiet_def gr0_conv_Suc)
    show ?thesis
      using False p
      by (simp add: fireChangedEvent_def fireChangedEvent_with_def fired_def n
          fire_loop_silent [OF s] del: fire_loop.simps)
  next
    case p: False
    then show ?thesis
      using False
      by (simp add: fireChangedEvent_def fireChangedEvent_with_def fired_def)
  qed
qed

lemma aa_remove_length_0:
  "aa_length a = 0 \<Longrightarrow> aa_length (snd (aa_remove a k)) = 0"
  by (simp add: aa_length_def aa_remove_def split: option.splits)

lemma removeById_hands_over:
  assumes "hash (labels w) i = Some r"
    and "r \<in> set (array (labels w))"
    and "r \<in> set (children (container_of w))"
  shows "\<exists>v. removeById n ls (Some i) w =
             (case fireChangedEvent n ls v of
                None \<Rightarrow> None
              | Some (Inl e, w') \<Rightarrow> Some (Inl e, w')
              | Some (Inr u, w') \<Rightarrow> Some (Inr True, w'))
           \<and> hash (labels v) i = None
           \<and> array (labels v) = remove1 r (array (labels w))
           \<and> children (container_of v) = removeAll r (children (container_of w))
           \<and> domlabelCollection (heap v r) = None
           \<and> (quiet n ls w \<longrightarrow> quiet n ls v)"
proof -
  define w1 where "w1 = w\<lparr>labels := snd (aa_remove (labels w) i)\<rparr>"
  define w3 where "w3 =
     (if \<not> fst (aa_remove (addedLabels w1) i)
      then w1\<lparr>addedLabels := snd (aa_remove (addedLabels w1) i),
              removedLabels := snd (aa_remove (removedLabels w1) i)\<rparr>
      else w1\<lparr>addedLabels := snd (aa_remove (addedLabels w1) i)\<rparr>)"
  define w6 where "w6 = w3\<lparr>labels := snd (aa_remove (labels w3) i),
      heap := (heap w3)(r := (heap w3 r)\<lparr>domlabelCollection := None\<rparr>),
      container_of := (container_of w3)\<lparr>children := removeAll r (children (container_of w3))\<rparr>\<rparr>"
  have eq: "removeById n ls (Some i) w =
     (case fireChangedEvent n ls w6 of
                     None \<Rightarrow> None
                   | Some (Inl e, w') \<Rightarrow> Some (Inl e, w')
                   | Some (Inr u, w') \<Rightarrow> Some (Inr True, w'))"
    using assms
    by (simp add: removeById_def removeById_with_def aa_get_def w1_def w3_def w6_def
        removeChild_def Let_def split_beta)
  have q: "quiet n ls w \<longrightarrow> quiet n ls w6"
    by (auto simp: quiet_def w6_def w3_def w1_def aa_remove_length_0)
  have l: "labels w6 = \<lparr>hash = (hash (labels w))(i := None),
                          array = remove1 r (array (labels w))\<rparr>"
    using assms by (simp add: w6_def w3_def w1_def aa_remove_def)
  have c: "children (container_of w6) = removeAll r (children (container_of w))"
    by (simp add: w6_def w3_def w1_def)
  have d: "domlabelCollection (heap w6 r) = None"
    by (simp add: w6_def)
  show ?thesis
    using eq q l c d by (intro exI [of _ w6]) simp
qed

text \<open>
  C6. \<open>remove\<close> is \<open>removeById\<close> of the label's id. \<open>removeById\<close> of an id that is no key
  of the collection returns false and changes nothing. \<open>removeById\<close> of the id of a stored
  label whose element is a child of the container first takes the id out of the keys and
  the label out of the array of values, clears the label's back-reference and takes its
  element out of the container; this state \<open>v\<close> it hands to the notification routine,
  and it returns true when the routine returns. When that notification is quiet, so
  that no listener changes the collection again before the call returns, the call
  returns true in a state where the label and its element are gone.
\<close>

theorem removeById_detaches:
  "remove n ls (Some r) w = removeById n ls (Some (label_id (heap w r))) w
   \<and> (hash (labels w) i = None \<longrightarrow> removeById n ls (Some i) w = Some (Inr False, w))
   \<and> (hash (labels w) i = Some r
        \<and> r \<in> set (array (labels w))
        \<and> r \<in> set (children (container_of w)) \<longrightarrow>
      (\<exists>v. removeById n ls (Some i) w =
             (case fireChangedEvent n ls v of
                None \<Rightarrow> None
              | Some (Inl e, w') \<Rightarrow> Some (Inl e, w')
              | Some (Inr u, w') \<Rightarrow> Some (Inr True, w'))
           \<and> hash (labels v) i = None
           \<and> array (labels v) = remove1 r (array (labels w))
           \<and> children (container_of v) = removeAll r (children (container_of w))
           \<and> domlabelCollection (heap v r) = None))
   \<and> (hash (labels w) i = Some r
        \<and> r \<in> set (array (labels w))
        \<and> r \<in> set (children (container_of w))
        \<and> quiet n ls w \<longrightarrow>
      (\<exists>w'. removeById n ls (Some i) w = Some (Inr True, w')
         \<and> hash (labels w') i = None
         \<and> array (labels w') = remove1 r (array (labels w))
         \<and> children (container_of w') = removeAll r (children (container_of w))
         \<and> domlabelCollection (heap w' r) = None))"
proof (intro conjI impI)
  show "remove n ls (Some r) w = removeById n ls (Some (label_id (heap w r))) w"
    by (simp add: remove_def removeById_def remove_with_def)
  show "removeById n ls (Some i) w = Some (Inr False, w)" if "hash (labels w) i = None"
    using that by (simp add: removeById_def removeById_with_def aa_get_def)
next
  assume "hash (labels w) i = Some r \<and> r \<in> set (array (labels w))
        \<and> r \<in> set (children (container_of w))"
  then have "\<exists>v. removeById n ls (Some i) w =
             (case fireChangedEvent n ls v of
                None \<Rightarrow> None
              | Some (Inl e, w') \<Rightarrow> Some (Inl e, w')
              | Some (Inr u, w') \<Rightarrow> Some (Inr True, w'))
           \<and> hash (labels v) i = None
           \<and> array (labels v) = remove1 r (array (labels w))
           \<and> children (container_of v) = removeAll r (children (container_of w))
           \<and> domlabelCollection (heap v r) = None
           \<and> (quiet n ls w \<longrightarrow> quiet n ls v)"
    by (intro removeById_hands_over) simp_all
  then show "\<exists>v. removeById n ls (Some i) w =
             (case fireChangedEvent n ls v of
                None \<Rightarrow> None
              | Some (Inl e, w') \<Rightarrow> Some (Inl e, w')
              | Some (Inr u, w') \<Rightarrow> Some (Inr True, w'))
           \<and> hash (labels v) i = None
           \<and> array (labels v) = remove1 r (array (labels w))
           \<and> children (container_of v) = removeAll r (children (container_of w))
           \<and> domlabelCollection (heap v r) = None"
    by blast
next
  assume a: "hash (labels w) i = Some r \<and> r \<in> set (array (labels w))
        \<and> r \<in> set (children (container_of w)) \<and> quiet n ls w"
  then have "\<exists>v. removeById n ls (Some i) w =
             (case fireChangedEvent n ls v of
                None \<Rightarrow> None
              | Some (Inl e, w') \<Rightarrow> Some (Inl e, w')
              | Some (Inr u, w') \<Rightarrow> Some (Inr True, w'))
           \<and> hash (labels v) i = None
           \<and> array (labels v) = remove1 r (array (labels w))
           \<and> children (container_of v) = removeAll r (children (container_of w))
           \<and> domlabelCollection (heap v r) = None
           \<and> (quiet n ls w \<longrightarrow> quiet n ls v)"
    by (intro removeById_hands_over) simp_all
  then obtain v where v: "removeById n ls (Some i) w =
             (case fireChangedEvent n ls v of
                None \<Rightarrow> None
              | Some (Inl e, w') \<Rightarrow> Some (Inl e, w')
              | Some (Inr u, w') \<Rightarrow> Some (Inr True, w'))"
    "hash (labels v) i = None"
    "array (labels v) = remove1 r (array (labels w))"
    "children (container_of v) = removeAll r (children (container_of w))"
    "domlabelCollection (heap v r) = None"
    "quiet n ls v"
    using a by blast
  from fireChangedEvent_quiet [OF v(6)] obtain w' where
    w': "fireChangedEvent n ls v = Some (Inr (), w')" "labels w' = labels v"
      "container_of w' = container_of v" "heap w' = heap v"
    by blast
  show "\<exists>w'. removeById n ls (Some i) w = Some (Inr True, w')
         \<and> hash (labels w') i = None
         \<and> array (labels w') = remove1 r (array (labels w))
         \<and> children (container_of w') = removeAll r (children (container_of w))
         \<and> domlabelCollection (heap w' r) = None"
    using v(1-5) w' by simp
qed

theorem removeById_detaches_witness:
  "hash (labels world_ab) ''a'' = Some 1
   \<and> 1 \<in> set (array (labels world_ab))
   \<and> 1 \<in> set (children (container_of world_ab))
   \<and> quiet 0 [] world_ab
   \<and> (\<exists>w'. removeById 0 [] (Some ''a'') world_ab = Some (Inr True, w')
         \<and> hash (labels w') ''a'' = None
         \<and> array (labels w') = [2]
         \<and> children (container_of w') = [2]
         \<and> domlabelCollection (heap w' 1) = None)
   \<and> removeById 0 [] (Some ''c'') world_ab = Some (Inr False, world_ab)"
  using removeById_detaches [of 0 "[]" 1 world_ab "''a''"]
    removeById_detaches [of 0 "[]" 1 world_ab "''c''"]
  by (simp add: world_ab_def world0_def cont0_def quiet_def aa_length_def aa_empty_def)

subsection \<open>Removing all labels\<close>







subsection \<open>Notifications are put off and replayed, never nested\<close>
























lemma aa_removeAll_array [simp]: "array (aa_removeAll a) = []"
  by (simp add: aa_removeAll_def)


lemma aa_removeAll_idem: "array a = [] \<Longrightarrow> aa_removeAll a = a"
  by (simp add: aa_removeAll_def)







end
